theory Spec2Isabelle
  imports Main "HOL-Library.Word" "HOL-Library.Char_ord" "HOL-Library.List_Lexorder" "HOL-Library.Sublist"
begin

section \<open>Go library functions used by the theme client\<close>

text \<open>
  \<^verbatim>\<open>strings.Join(elems, sep)\<close>: the elements concatenated, with \<open>sep\<close> between
  neighbours.
\<close>

fun Join :: "string list \<Rightarrow> string \<Rightarrow> string" where
  "Join [] sep = []"
| "Join [x] sep = x"
| "Join (x # y # ys) sep = x @ sep @ Join (y # ys) sep"

text \<open>\<^verbatim>\<open>strings.Contains(s, substr)\<close>: \<open>substr\<close> occurs at some offset of \<open>s\<close>.\<close>

fun Contains :: "string \<Rightarrow> string \<Rightarrow> bool" where
  "Contains [] substr = (substr = [])"
| "Contains (c # s) substr = (prefix substr (c # s) \<or> Contains s substr)"

subsection \<open>The sentence renderer\<close>

text \<open>
  \<^verbatim>\<open>toSentence\<close>: a switch on \<open>len(a)\<close>; the slice \<open>a[:len(a)-1]\<close> is
  \<open>take (length a - 1) a\<close>. Every index read is guarded by the length that selects
  the branch.
\<close>

definition toSentence :: "string list \<Rightarrow> string" where
  "toSentence a =
     (if length a = 0 then ''''
      else if length a = 1 then a ! 0
      else if length a = 2 then a ! 0 @ '' and '' @ a ! 1
      else Join (take (length a - 1) a) '', '' @ '', and '' @ a ! (length a - 1))"

text \<open>
  \<^verbatim>\<open>fmt.Sprintf("%d", n)\<close> for an \<open>int64\<close>: the signed decimal numeral.
\<close>

fun decimal :: "nat \<Rightarrow> string" where
  "decimal n =
     (if n < 10 then [char_of (48 + n)]
      else decimal (n div 10) @ [char_of (48 + n mod 10)])"

definition Sprintf_d :: "64 word \<Rightarrow> string" where
  "Sprintf_d n =
     (if sint n < 0 then CHR ''-'' # decimal (nat (- sint n)) else decimal (nat (sint n)))"

text \<open>
  \<^verbatim>\<open>url.QueryEscape\<close>: letters, digits and \<open>- _ . ~\<close> stay, a space becomes
  \<open>+\<close>, every other byte becomes \<open>%XX\<close> in upper-case hexadecimal.
\<close>

definition unreserved :: "char \<Rightarrow> bool" where
  "unreserved c =
     ((CHR ''a'' \<le> c \<and> c \<le> CHR ''z'') \<or> (CHR ''A'' \<le> c \<and> c \<le> CHR ''Z'') \<or>
      (CHR ''0'' \<le> c \<and> c \<le> CHR ''9'') \<or> c \<in> set ''-_.~'')"

definition upperhex :: "nat \<Rightarrow> char" where
  "upperhex n = ''0123456789ABCDEF'' ! (n mod 16)"

fun QueryEscape :: "string \<Rightarrow> string" where
  "QueryEscape [] = []"
| "QueryEscape (c # s) =
     (if unreserved c then [c]
      else if c = CHR '' '' then ''+''
      else [CHR ''%'', upperhex (of_char c div 16), upperhex (of_char c)]) @ QueryEscape s"

text \<open>
  \<^verbatim>\<open>url.Values.Encode\<close> on a map with one value per key: the pairs in ascending key
  order, each rendered \<open>key=value\<close> with both sides escaped, joined by \<open>&\<close>. A
  \<open>map[string]string\<close> query is an association list here.
\<close>

definition Encode :: "(string \<times> string) list \<Rightarrow> string" where
  "Encode query =
     Join (map (\<lambda>(key, v). QueryEscape key @ ''='' @ QueryEscape v) (sort_key fst query)) ''&''"


section \<open>Data model\<close>

text \<open>
  The package's error values. The sentinels of the \<^verbatim>\<open>var\<close> block are one constructor
  each, \<^verbatim>\<open>errors.New(msg)\<close> built at run time is \<open>errors_New msg\<close>, and an error
  handed over by a collaborator (the transport, the body's \<^verbatim>\<open>Close\<close>, the JSON
  decoder) is \<open>External\<close>.
\<close>

datatype error =
    ErrCriticalFile
  | ErrNotPartOfTheme
  | ErrMalformedResponse
  | ErrZipPathRequired
  | ErrInfoWithoutThemeID
  | ErrPublishWithoutThemeID
  | ErrThemeNotFound
  | ErrShopDomainNotFound
  | ErrMissingAssetName
  | ErrThemeNameRequired
  | errors_New string
  | External string

text \<open>A run-time panic: the only one the package can raise is a slice index out of range.\<close>

datatype panic = IndexOutOfRange

record Theme =
  ID :: "64 word"
  Name :: string
  Role :: string
  Previewable :: bool
  Processing :: bool

record Shop =
  ID :: "64 word"
  Name :: string
  City :: string
  Country :: string
  Desc :: string

text \<open>
  Modelled from the spec: the \<^verbatim>\<open>Asset\<close> struct is declared in another file of the
  package. The spec gives it a \<open>Key\<close> (its path within the theme), the contents
  \<open>Value\<close> and \<open>Attachment\<close>, and a \<open>Checksum\<close>; the client reads \<open>Key\<close> only.
\<close>

record Asset =
  Key :: string
  Value :: string
  Attachment :: string
  Checksum :: string

text \<open>
  A \<^verbatim>\<open>map[string][]string\<close> of field errors is an association list; the order of
  its entries stands for the order in which this run's \<^verbatim>\<open>range\<close> visits the map,
  which Go leaves unspecified. \<^verbatim>\<open>len(m) > 0\<close> is \<open>m \<noteq> []\<close> and \<^verbatim>\<open>m[k]\<close> with
  its \<^verbatim>\<open>ok\<close> flag is \<open>map_of m k\<close>.
\<close>

type_synonym field_errors = "(string \<times> string list) list"

record themeResponse =
  Theme :: Theme
  Errors :: field_errors

record themesResponse =
  Themes :: "Theme list"

record assetResponse =
  Asset :: Asset
  Errors :: field_errors

record assetsResponse =
  Assets :: "Asset list"

record reqErr =
  Errors :: string

definition zero_Theme :: Theme where
  "zero_Theme = \<lparr>Theme.ID = 0, Name = '''', Role = '''', Previewable = False, Processing = False\<rparr>"

definition zero_Shop :: Shop where
  "zero_Shop = \<lparr>Shop.ID = 0, Name = '''', City = '''', Country = '''', Desc = ''''\<rparr>"

definition zero_Asset :: Asset where
  "zero_Asset = \<lparr>Key = '''', Value = '''', Attachment = '''', Checksum = ''''\<rparr>"

definition zero_themeResponse :: themeResponse where
  "zero_themeResponse = \<lparr>Theme = zero_Theme, Errors = []\<rparr>"

definition zero_themesResponse :: themesResponse where
  "zero_themesResponse = \<lparr>Themes = []\<rparr>"

definition zero_assetResponse :: assetResponse where
  "zero_assetResponse = \<lparr>Asset = zero_Asset, Errors = []\<rparr>"

definition zero_assetsResponse :: assetsResponse where
  "zero_assetsResponse = \<lparr>Assets = []\<rparr>"

definition zero_reqErr :: reqErr where
  "zero_reqErr = \<lparr>Errors = ''''\<rparr>"

subsection \<open>The transport and the JSON decoder\<close>

text \<open>
  A response body is an \<^verbatim>\<open>io.ReadCloser\<close>: what \<^verbatim>\<open>ioutil.ReadAll\<close> gives on it
  and what its \<^verbatim>\<open>Close\<close> gives.
\<close>

record Body =
  ReadAll :: "error + string"
  Close :: "error option"

record Response =
  StatusCode :: int
  Body :: Body

text \<open>The value sent with a \<^verbatim>\<open>Post\<close> or \<^verbatim>\<open>Put\<close>: a map with the one key \<open>theme\<close> or \<open>asset\<close>.\<close>

datatype payload = theme_payload Theme | asset_payload Asset

text \<open>
  \<^verbatim>\<open>httpAdapter\<close> is an interface; an implementation is four functions on the state
  \<open>'w\<close> of whatever is behind it (the network, the server, a test double's script).
\<close>

record 'w httpAdapter =
  Get :: "string \<Rightarrow> 'w \<Rightarrow> (error + Response) \<times> 'w"
  Post :: "string \<Rightarrow> payload \<Rightarrow> 'w \<Rightarrow> (error + Response) \<times> 'w"
  Put :: "string \<Rightarrow> payload \<Rightarrow> 'w \<Rightarrow> (error + Response) \<times> 'w"
  Delete :: "string \<Rightarrow> 'w \<Rightarrow> (error + Response) \<times> 'w"

text \<open>
  \<^verbatim>\<open>Client\<close>. Of \<^verbatim>\<open>file.Filter\<close> the client uses the predicate \<^verbatim>\<open>Match\<close> only,
  so the field holds that predicate.
\<close>

record 'w Client =
  themeID :: string
  filter_f :: "string \<Rightarrow> bool"
  http :: "'w httpAdapter"

text \<open>
  What an operation runs on: the state behind the transport, and the requests issued
  so far in order (kept so that "no request is issued" and "exactly one request is
  issued" can be stated).
\<close>

datatype request = GET string | POST string payload | PUT string payload | DELETE string

record 'w net =
  world :: 'w
  calls :: "request list"

definition http_Get :: "'w Client \<Rightarrow> string \<Rightarrow> 'w net \<Rightarrow> (error + Response) \<times> 'w net" where
  "http_Get c path s =
     (case Get (http c) path (world s) of
        (r, w) \<Rightarrow> (r, \<lparr>world = w, calls = calls s @ [GET path]\<rparr>))"

definition http_Post ::
  "'w Client \<Rightarrow> string \<Rightarrow> payload \<Rightarrow> 'w net \<Rightarrow> (error + Response) \<times> 'w net" where
  "http_Post c path b s =
     (case Post (http c) path b (world s) of
        (r, w) \<Rightarrow> (r, \<lparr>world = w, calls = calls s @ [POST path b]\<rparr>))"

definition http_Put ::
  "'w Client \<Rightarrow> string \<Rightarrow> payload \<Rightarrow> 'w net \<Rightarrow> (error + Response) \<times> 'w net" where
  "http_Put c path b s =
     (case Put (http c) path b (world s) of
        (r, w) \<Rightarrow> (r, \<lparr>world = w, calls = calls s @ [PUT path b]\<rparr>))"

definition http_Delete :: "'w Client \<Rightarrow> string \<Rightarrow> 'w net \<Rightarrow> (error + Response) \<times> 'w net" where
  "http_Delete c path s =
     (case Delete (http c) path (world s) of
        (r, w) \<Rightarrow> (r, \<lparr>world = w, calls = calls s @ [DELETE path]\<rparr>))"

text \<open>
  \<^verbatim>\<open>json.Unmarshal(data, &v)\<close> belongs to the standard library and is a parameter:
  from the bytes and the target as it stands, the error (if any) and the target as the
  decoder leaves it. A failing decode may have stored some fields already.
\<close>

type_synonym 'a Unmarshal = "string \<Rightarrow> 'a \<Rightarrow> error option \<times> 'a"

record json =
  Unmarshal_Shop :: "Shop Unmarshal"
  Unmarshal_themeResponse :: "themeResponse Unmarshal"
  Unmarshal_themesResponse :: "themesResponse Unmarshal"
  Unmarshal_assetResponse :: "assetResponse Unmarshal"
  Unmarshal_assetsResponse :: "assetsResponse Unmarshal"
  Unmarshal_reqErr :: "reqErr Unmarshal"

section \<open>The response decoder and the error aggregator\<close>

text \<open>
  \<^verbatim>\<open>unmarshalResponse(body, data)\<close>, returning the error together with \<open>data\<close> as
  it stands afterwards.
\<close>

definition unmarshalResponse ::
  "'a Unmarshal \<Rightarrow> reqErr Unmarshal \<Rightarrow> Body \<Rightarrow> 'a \<Rightarrow> error option \<times> 'a" where
  "unmarshalResponse unmarshal_data unmarshal_re body data =
     (case ReadAll body of
        Inl err \<Rightarrow> (Some ErrMalformedResponse, data)
      | Inr reqBody \<Rightarrow>
          (case Close body of
             Some err \<Rightarrow> (Some err, data)
           | None \<Rightarrow>
               (case unmarshal_data reqBody data of
                  (mainErr, data') \<Rightarrow>
                    (case unmarshal_re reqBody zero_reqErr of
                       (basicErr, re) \<Rightarrow>
                         if mainErr \<noteq> None \<and> basicErr \<noteq> None
                         then (Some ErrMalformedResponse, data')
                         else if length (reqErr.Errors re) > 0
                         then (Some (errors_New (reqErr.Errors re)), data')
                         else (None, data')))))"

text \<open>\<^verbatim>\<open>toMessages\<close>: every message of every attribute, prefixed with the attribute.\<close>

definition toMessages :: "field_errors \<Rightarrow> string list" where
  "toMessages a = concat (map (\<lambda>(attr, errs). map (\<lambda>err. attr @ '' '' @ err) errs) a)"

section \<open>The client\<close>

text \<open>\<^verbatim>\<open>assetPath\<close>.\<close>

definition assetPath :: "'w Client \<Rightarrow> (string \<times> string) list \<Rightarrow> string" where
  "assetPath c query =
     (let formatted =
            (if themeID c \<noteq> '''' then ''/admin/themes/'' @ themeID c @ ''/assets.json''
             else ''/admin/assets.json'')
      in if length query > 0 then formatted @ ''?'' @ Encode query else formatted)"


text \<open>
  An operation with results \<^verbatim>\<open>(T, error)\<close> returns the zero \<open>T\<close> with every error
  and a \<^verbatim>\<open>nil\<close> error with every value, so its result is \<open>error + T\<close>; a sole
  \<^verbatim>\<open>error\<close> result is \<open>error option\<close>, \<open>None\<close> for \<^verbatim>\<open>nil\<close>.
\<close>

definition GetShop :: "json \<Rightarrow> 'w Client \<Rightarrow> 'w net \<Rightarrow> (error + Shop) \<times> 'w net" where
  "GetShop J c s =
     (case http_Get c ''/meta.json'' s of
        (Inl err, s') \<Rightarrow> (Inl err, s')
      | (Inr resp, s') \<Rightarrow>
          if StatusCode resp = 404 then (Inl ErrShopDomainNotFound, s')
          else (case unmarshalResponse (Unmarshal_Shop J) (Unmarshal_reqErr J) (Body resp) zero_Shop of
                  (Some err, shop) \<Rightarrow> (Inl err, s')
                | (None, shop) \<Rightarrow> (Inr shop, s')))"

definition Themes_c :: "json \<Rightarrow> 'w Client \<Rightarrow> 'w net \<Rightarrow> (error + Theme list) \<times> 'w net" where
  "Themes_c J c s =
     (case http_Get c ''/admin/themes.json'' s of
        (Inl err, s') \<Rightarrow> (Inl err, s')
      | (Inr resp, s') \<Rightarrow>
          (case unmarshalResponse (Unmarshal_themesResponse J) (Unmarshal_reqErr J) (Body resp)
                  zero_themesResponse of
             (Some err, r) \<Rightarrow> (Inl err, s')
           | (None, r) \<Rightarrow> (Inr (Themes r), s')))"

text \<open>
  \<^verbatim>\<open>CreateNewTheme\<close> has a pointer receiver: it is the one method that can change the
  caller's client, so it returns the client too.
\<close>

definition CreateNewTheme ::
  "json \<Rightarrow> 'w Client \<Rightarrow> string \<Rightarrow> 'w net \<Rightarrow> (error + Theme) \<times> 'w Client \<times> 'w net" where
  "CreateNewTheme J c name s =
     (if name = '''' then (Inl ErrThemeNameRequired, c, s)
      else
        (case http_Post c ''/admin/themes.json'' (theme_payload (zero_Theme\<lparr>Theme.Name := name\<rparr>)) s of
           (Inl err, s') \<Rightarrow> (Inl err, c, s')
         | (Inr resp, s') \<Rightarrow>
             (case unmarshalResponse (Unmarshal_themeResponse J) (Unmarshal_reqErr J) (Body resp)
                     zero_themeResponse of
                (Some err, r) \<Rightarrow> (Inl err, c, s')
              | (None, r) \<Rightarrow>
                  if length (themeResponse.Errors r) > 0
                  then (Inl (errors_New (toSentence (toMessages (themeResponse.Errors r)))), c, s')
                  else (Inr (Theme r), c\<lparr>themeID := Sprintf_d (Theme.ID (Theme r))\<rparr>, s'))))"

definition GetInfo :: "json \<Rightarrow> 'w Client \<Rightarrow> 'w net \<Rightarrow> (error + Theme) \<times> 'w net" where
  "GetInfo J c s =
     (if themeID c = '''' then (Inl ErrInfoWithoutThemeID, s)
      else
        (case http_Get c (''/admin/themes/'' @ themeID c @ ''.json'') s of
           (Inl err, s') \<Rightarrow> (Inl err, s')
         | (Inr resp, s') \<Rightarrow>
             if StatusCode resp = 404 then (Inl ErrThemeNotFound, s')
             else (case unmarshalResponse (Unmarshal_themeResponse J) (Unmarshal_reqErr J) (Body resp)
                          zero_themeResponse of
                     (Some err, r) \<Rightarrow> (Inl err, s')
                   | (None, r) \<Rightarrow> (Inr (Theme r), s'))))"

definition PublishTheme :: "json \<Rightarrow> 'w Client \<Rightarrow> 'w net \<Rightarrow> error option \<times> 'w net" where
  "PublishTheme J c s =
     (if themeID c = '''' then (Some ErrPublishWithoutThemeID, s)
      else
        (case http_Put c (''/admin/themes/'' @ themeID c @ ''.json'')
                (theme_payload (zero_Theme\<lparr>Theme.Role := ''main''\<rparr>)) s of
           (Inl err, s') \<Rightarrow> (Some err, s')
         | (Inr resp, s') \<Rightarrow>
             if StatusCode resp = 404 then (Some ErrThemeNotFound, s')
             else (case unmarshalResponse (Unmarshal_themeResponse J) (Unmarshal_reqErr J) (Body resp)
                          zero_themeResponse of
                     (Some err, r) \<Rightarrow> (Some err, s')
                   | (None, r) \<Rightarrow>
                       if length (themeResponse.Errors r) > 0
                       then (Some (errors_New (toSentence (toMessages (themeResponse.Errors r)))), s')
                       else (None, s'))))"

text \<open>
  The loop of \<^verbatim>\<open>GetAllAssets\<close> over the sorted slice, by index, appending to
  \<open>filteredAssets\<close>. The read of \<open>index + 1\<close> is behind the test that \<open>index\<close> is
  not the last one.
\<close>

function filterLoop :: "(string \<Rightarrow> bool) \<Rightarrow> Asset list \<Rightarrow> nat \<Rightarrow> string list \<Rightarrow> string list" where
  "filterLoop match assets index filteredAssets =
     (if index < length assets then
        (let asset = assets ! index in
         if \<not> match (Key asset) \<and>
            (int index = int (length assets) - 1 \<or>
             Key (assets ! (index + 1)) \<noteq> Key asset @ ''.liquid'')
         then filterLoop match assets (index + 1) (filteredAssets @ [Key asset])
         else filterLoop match assets (index + 1) filteredAssets)
      else filteredAssets)"
  by pat_completeness auto
termination
  by (relation "measure (\<lambda>(match, assets, index, filteredAssets). length assets - index)") auto

text \<open>
  \<^verbatim>\<open>sort.Slice\<close> with \<open><\<close> on the keys leaves the slice in ascending key order (Go
  compares strings bytewise, as the order on \<open>string\<close> here does). It is not stable, but
  the loop reads keys only, and the sequence of keys of an ascending arrangement is the
  same for every one of them; \<open>sort_key\<close> gives one.
\<close>

definition GetAllAssets :: "json \<Rightarrow> 'w Client \<Rightarrow> 'w net \<Rightarrow> (error + string list) \<times> 'w net" where
  "GetAllAssets J c s =
     (case http_Get c (assetPath c [(''fields'', ''key'')]) s of
        (Inl err, s') \<Rightarrow> (Inl err, s')
      | (Inr resp, s') \<Rightarrow>
          if StatusCode resp = 404 then (Inl ErrThemeNotFound, s')
          else (case unmarshalResponse (Unmarshal_assetsResponse J) (Unmarshal_reqErr J) (Body resp)
                       zero_assetsResponse of
                  (Some err, r) \<Rightarrow> (Inl err, s')
                | (None, r) \<Rightarrow>
                    (Inr (filterLoop (filter_f c) (sort_key Key (Assets r)) 0 []), s')))"

definition GetAsset :: "json \<Rightarrow> 'w Client \<Rightarrow> string \<Rightarrow> 'w net \<Rightarrow> (error + Asset) \<times> 'w net" where
  "GetAsset J c filename s =
     (case http_Get c (assetPath c [(''asset[key]'', filename)]) s of
        (Inl err, s') \<Rightarrow> (Inl err, s')
      | (Inr resp, s') \<Rightarrow>
          if StatusCode resp = 404 then (Inl ErrNotPartOfTheme, s')
          else (case unmarshalResponse (Unmarshal_assetResponse J) (Unmarshal_reqErr J) (Body resp)
                       zero_assetResponse of
                  (Some err, r) \<Rightarrow> (Inl err, s')
                | (None, r) \<Rightarrow> (Inr (Asset r), s')))"

definition DeleteAsset :: "json \<Rightarrow> 'w Client \<Rightarrow> Asset \<Rightarrow> 'w net \<Rightarrow> error option \<times> 'w net" where
  "DeleteAsset J c asset s =
     (case http_Delete c (assetPath c [(''asset[key]'', Key asset)]) s of
        (Inl err, s') \<Rightarrow> (Some err, s')
      | (Inr resp, s') \<Rightarrow>
          if StatusCode resp = 403 then (Some ErrCriticalFile, s')
          else if StatusCode resp = 404 then (Some ErrNotPartOfTheme, s')
          else if StatusCode resp = 406 then (Some ErrMissingAssetName, s')
          else (case unmarshalResponse (Unmarshal_assetResponse J) (Unmarshal_reqErr J) (Body resp)
                       zero_assetResponse of
                  (Some err, r) \<Rightarrow> (Some err, s')
                | (None, r) \<Rightarrow>
                    if length (assetResponse.Errors r) > 0
                    then (Some (errors_New (toSentence (toMessages (assetResponse.Errors r)))), s')
                    else (None, s')))"

text \<open>
  \<^verbatim>\<open>UpdateAsset\<close> calls itself after the shadow delete, with nothing that bounds the
  number of rounds, so it is a partial function: \<open>None\<close> is a call that never returns.
  A call that returns gives \<open>Inr\<close> of its error result, or \<open>Inl\<close> of the panic that
  ended it. \<^verbatim>\<open>r.Errors["asset"][0]\<close> is a slice read at index 0 and panics on an empty
  slice.
\<close>

partial_function (option) UpdateAsset ::
  "json \<Rightarrow> 'w Client \<Rightarrow> Asset \<Rightarrow> 'w net \<Rightarrow> ((panic + error option) \<times> 'w net) option" where
  "UpdateAsset J c asset s =
     (case http_Put c (assetPath c []) (asset_payload asset) s of
        (Inl err, s') \<Rightarrow> Some (Inr (Some err), s')
      | (Inr resp, s') \<Rightarrow>
          if StatusCode resp = 404 then Some (Inr (Some ErrNotPartOfTheme), s')
          else (case unmarshalResponse (Unmarshal_assetResponse J) (Unmarshal_reqErr J) (Body resp)
                       zero_assetResponse of
                  (Some err, r) \<Rightarrow> Some (Inr (Some err), s')
                | (None, r) \<Rightarrow>
                    if length (assetResponse.Errors r) > 0 then
                      (case map_of (assetResponse.Errors r) ''asset'' of
                         Some msgs \<Rightarrow>
                           if StatusCode resp = 422 then
                             (case msgs of
                                [] \<Rightarrow> Some (Inl IndexOutOfRange, s')
                              | m # ms \<Rightarrow>
                                  if Contains m ''Cannot overwrite generated asset'' then
                                    (case DeleteAsset J c (zero_Asset\<lparr>Key := Key asset @ ''.liquid''\<rparr>) s' of
                                       (ignored, s'') \<Rightarrow> UpdateAsset J c asset s'')
                                  else Some (Inr (Some (errors_New (toSentence msgs))), s'))
                           else Some (Inr (Some (errors_New (toSentence msgs))), s')
                       | None \<Rightarrow>
                           Some (Inr (Some (errors_New (toSentence (toMessages (assetResponse.Errors r))))), s'))
                    else Some (Inr None, s')))"

definition CreateAsset ::
  "json \<Rightarrow> 'w Client \<Rightarrow> Asset \<Rightarrow> 'w net \<Rightarrow> ((panic + error option) \<times> 'w net) option" where
  "CreateAsset J c asset s = UpdateAsset J c asset s"


subsection \<open>The client as a state machine\<close>

text \<open>
  The public operations, and what one call leaves behind: the caller's client and the
  state behind the transport. A method with a value receiver works on a copy of the
  client, so the caller's client is as before; \<^verbatim>\<open>CreateNewTheme\<close> has a pointer
  receiver and hands its client back. \<open>None\<close> is a call that never returns.
\<close>

datatype operation =
    OpGetShop
  | OpThemes
  | OpCreateNewTheme string
  | OpGetInfo
  | OpPublishTheme
  | OpGetAllAssets
  | OpGetAsset string
  | OpCreateAsset Asset
  | OpUpdateAsset Asset
  | OpDeleteAsset Asset

fun run :: "json \<Rightarrow> operation \<Rightarrow> 'w Client \<times> 'w net \<Rightarrow> ('w Client \<times> 'w net) option" where
  "run J OpGetShop (c, s) = Some (c, snd (GetShop J c s))"
| "run J OpThemes (c, s) = Some (c, snd (Themes_c J c s))"
| "run J (OpCreateNewTheme name) (c, s) = Some (snd (CreateNewTheme J c name s))"
| "run J OpGetInfo (c, s) = Some (c, snd (GetInfo J c s))"
| "run J OpPublishTheme (c, s) = Some (c, snd (PublishTheme J c s))"
| "run J OpGetAllAssets (c, s) = Some (c, snd (GetAllAssets J c s))"
| "run J (OpGetAsset filename) (c, s) = Some (c, snd (GetAsset J c filename s))"
| "run J (OpCreateAsset asset) (c, s) = map_option (\<lambda>(r, s'). (c, s')) (CreateAsset J c asset s)"
| "run J (OpUpdateAsset asset) (c, s) = map_option (\<lambda>(r, s'). (c, s')) (UpdateAsset J c asset s)"
| "run J (OpDeleteAsset asset) (c, s) = Some (c, snd (DeleteAsset J c asset s))"

fun run_all :: "json \<Rightarrow> operation list \<Rightarrow> 'w Client \<times> 'w net \<Rightarrow> ('w Client \<times> 'w net) option" where
  "run_all J [] cs = Some cs"
| "run_all J (op # ops) cs = (case run J op cs of None \<Rightarrow> None | Some cs' \<Rightarrow> run_all J ops cs')"

section \<open>The listing as the specification words it\<close>

text \<open>
  The specification's \<open>ListAssetKeys\<close>: two filters in sequence on the sorted keys,
  first the ignore predicate, then, on what is left, every key that is immediately
  followed by itself with \<open>.liquid\<close> appended.
\<close>

fun spec_dropShadowed :: "string list \<Rightarrow> string list" where
  "spec_dropShadowed [] = []"
| "spec_dropShadowed [k] = [k]"
| "spec_dropShadowed (k # k' # ks) =
     (if k' = k @ ''.liquid'' then spec_dropShadowed (k' # ks)
      else k # spec_dropShadowed (k' # ks))"

definition spec_ListAssetKeys :: "(string \<Rightarrow> bool) \<Rightarrow> string list \<Rightarrow> string list" where
  "spec_ListAssetKeys match keys = spec_dropShadowed (filter (\<lambda>k. \<not> match k) (sort keys))"

text \<open>
  The single pass the source makes, as a comprehension over positions: position \<open>i\<close>
  of the sorted keys is kept when its key is not ignored and the key at \<open>i + 1\<close>, if
  there is one, is not this key with \<open>.liquid\<close> appended.
\<close>

definition keptKeys :: "(string \<Rightarrow> bool) \<Rightarrow> string list \<Rightarrow> string list" where
  "keptKeys match ks =
     map (\<lambda>i. ks ! i)
       (filter (\<lambda>i. \<not> match (ks ! i) \<and> (Suc i = length ks \<or> ks ! Suc i \<noteq> ks ! i @ ''.liquid''))
          [0..<length ks])"


section \<open>A test double\<close>

text \<open>
  A transport that answers from a script, one entry per request whatever the request,
  and fails once the script is used up.
\<close>

definition scripted_reply ::
  "(error + Response) list \<Rightarrow> (error + Response) \<times> (error + Response) list" where
  "scripted_reply w =
     (case w of [] \<Rightarrow> (Inl (External ''script exhausted''), []) | r # rs \<Rightarrow> (r, rs))"

definition scripted :: "(error + Response) list httpAdapter" where
  "scripted =
     \<lparr>Get = (\<lambda>path. scripted_reply), Post = (\<lambda>path b. scripted_reply),
      Put = (\<lambda>path b. scripted_reply), Delete = (\<lambda>path. scripted_reply)\<rparr>"

definition reply :: "int \<Rightarrow> string \<Rightarrow> error + Response" where
  "reply code bytes = Inr \<lparr>StatusCode = code, Body = \<lparr>ReadAll = Inr bytes, Close = None\<rparr>\<rparr>"

definition no_ignore :: "string \<Rightarrow> bool" where
  "no_ignore k = False"

definition ignore_key :: "string \<Rightarrow> string \<Rightarrow> bool" where
  "ignore_key k0 k = (k = k0)"

definition test_client :: "string \<Rightarrow> (string \<Rightarrow> bool) \<Rightarrow> (error + Response) list Client" where
  "test_client tid match = \<lparr>themeID = tid, filter_f = match, http = scripted\<rparr>"

definition start :: "(error + Response) list \<Rightarrow> (error + Response) list net" where
  "start script = \<lparr>world = script, calls = []\<rparr>"

definition key_asset :: "string \<Rightarrow> Asset" where
  "key_asset k = zero_Asset\<lparr>Key := k\<rparr>"

text \<open>
  The bodies the examples use, and a decoder that knows them: on each it gives what
  \<^verbatim>\<open>json.Unmarshal\<close> gives, and it rejects every other body as one that does not
  parse. A field-error object is a type error for the flat shape \<^verbatim>\<open>reqErr\<close>, whose
  \<open>errors\<close> is a string, and the flat error is one for the map of a resource shape.
\<close>

definition body_empty :: string where
  \<open>body_empty = ''{}''\<close>

definition body_conflict :: string where
  \<open>body_conflict = ''{"errors":{"asset":["Cannot overwrite generated asset"]}}''\<close>

definition body_no_messages :: string where
  \<open>body_no_messages = ''{"errors":{"asset":[]}}''\<close>

definition body_flat :: string where
  \<open>body_flat = ''{"errors":"Not Found"}''\<close>

definition body_theme :: string where
  \<open>body_theme = ''{"theme":{"id":7,"name":"Foo"}}''\<close>

definition body_pair :: string where
  \<open>body_pair = ''{"assets":[{"key":"b.css"},{"key":"a.js.liquid"},{"key":"a.js"}]}''\<close>

definition body_shadow_only :: string where
  \<open>body_shadow_only = ''{"assets":[{"key":"a.js.liquid"},{"key":"a.js"}]}''\<close>

definition body_between :: string where
  \<open>body_between = ''{"assets":[{"key":"a.js"},{"key":"a.js.bak"},{"key":"a.js.liquid"}]}''\<close>

definition known_bodies :: "string list" where
  "known_bodies =
     [body_empty, body_conflict, body_no_messages, body_flat, body_theme, body_pair,
      body_shadow_only, body_between]"

definition syntax_error :: error where
  "syntax_error = External ''invalid character looking for beginning of value''"

definition type_error :: error where
  "type_error = External ''json: cannot unmarshal''"

definition test_json :: json where
  "test_json =
     \<lparr>Unmarshal_Shop = (\<lambda>b v. if b \<in> set known_bodies then (None, v) else (Some syntax_error, v)),
      Unmarshal_themeResponse = (\<lambda>b v.
        if b = body_theme then (None, v\<lparr>Theme := zero_Theme\<lparr>Theme.ID := 7, Theme.Name := ''Foo''\<rparr>\<rparr>)
        else if b = body_conflict then (None, v\<lparr>themeResponse.Errors :=
                 [(''asset'', [''Cannot overwrite generated asset''])]\<rparr>)
        else if b = body_no_messages then (None, v\<lparr>themeResponse.Errors := [(''asset'', [])]\<rparr>)
        else if b = body_flat then (Some type_error, v)
        else if b \<in> set known_bodies then (None, v)
        else (Some syntax_error, v)),
      Unmarshal_themesResponse = (\<lambda>b v.
        if b \<in> set known_bodies then (None, v) else (Some syntax_error, v)),
      Unmarshal_assetResponse = (\<lambda>b v.
        if b = body_conflict then (None, v\<lparr>assetResponse.Errors :=
                 [(''asset'', [''Cannot overwrite generated asset''])]\<rparr>)
        else if b = body_no_messages then (None, v\<lparr>assetResponse.Errors := [(''asset'', [])]\<rparr>)
        else if b = body_flat then (Some type_error, v)
        else if b \<in> set known_bodies then (None, v)
        else (Some syntax_error, v)),
      Unmarshal_assetsResponse = (\<lambda>b v.
        if b = body_pair
        then (None, v\<lparr>Assets := [key_asset ''b.css'', key_asset ''a.js.liquid'', key_asset ''a.js'']\<rparr>)
        else if b = body_shadow_only
        then (None, v\<lparr>Assets := [key_asset ''a.js.liquid'', key_asset ''a.js'']\<rparr>)
        else if b = body_between
        then (None, v\<lparr>Assets := [key_asset ''a.js'', key_asset ''a.js.bak'', key_asset ''a.js.liquid'']\<rparr>)
        else if b \<in> set known_bodies then (None, v)
        else (Some syntax_error, v)),
      Unmarshal_reqErr = (\<lambda>b v.
        if b = body_flat then (None, v\<lparr>reqErr.Errors := ''Not Found''\<rparr>)
        else if b = body_conflict \<or> b = body_no_messages then (Some type_error, v)
        else if b \<in> set known_bodies then (None, v)
        else (Some syntax_error, v))\<rparr>"


declare decimal.simps [simp del]
declare filterLoop.simps [simp del]

section \<open>Evaluation on the test double\<close>

lemmas test_defs =
  test_client_def start_def scripted_def scripted_reply_def reply_def key_asset_def
  test_json_def known_bodies_def body_empty_def body_conflict_def body_no_messages_def
  body_flat_def body_theme_def body_pair_def body_shadow_only_def body_between_def
  syntax_error_def type_error_def

lemmas zero_defs =
  zero_Theme_def zero_Shop_def zero_Asset_def zero_themeResponse_def zero_themesResponse_def
  zero_assetResponse_def zero_assetsResponse_def zero_reqErr_def

lemmas http_defs =
  http_Get_def http_Post_def http_Put_def http_Delete_def assetPath_def Encode_def
  unreserved_def upperhex_def unmarshalResponse_def

section \<open>The sentence renderer\<close>

text \<open>
  C8. For every list of strings, \<open>toSentence\<close> gives the empty string for no item, the
  item itself for one item, \<open>A and B\<close> for two items, and for three items or more all
  but the last joined with a comma and a space, then \<open>, and\<close> and the last item.
\<close>

theorem toSentence_renders:
  "toSentence [] = '''' \<and>
   toSentence [x] = x \<and>
   toSentence [x, y] = x @ '' and '' @ y \<and>
   (3 \<le> length a \<longrightarrow> toSentence a = Join (butlast a) '', '' @ '', and '' @ last a)"
proof -
  have "toSentence a = Join (butlast a) '', '' @ '', and '' @ last a" if "3 \<le> length a"
  proof -
    from that have ne: "a \<noteq> []" by auto
    have "a ! (length a - 1) = last a" using ne by (simp add: last_conv_nth)
    moreover have "take (length a - 1) a = butlast a" by (simp add: butlast_conv_take)
    ultimately show ?thesis using that ne by (simp add: toSentence_def)
  qed
  then show ?thesis by (simp add: toSentence_def)
qed

theorem toSentence_renders_witness:
  "3 \<le> length [''A'', ''B'', ''C''] \<and> toSentence [''A'', ''B'', ''C''] = ''A, B, and C''"
  using toSentence_renders [of "''x''" "''y''" "[''A'', ''B'', ''C'']"] by simp

section \<open>Preconditions on the bound theme\<close>

text \<open>
  C7. On a client whose \<open>themeID\<close> is empty, \<open>GetInfo\<close> fails with
  \<open>ErrInfoWithoutThemeID\<close> and \<open>PublishTheme\<close> with \<open>ErrPublishWithoutThemeID\<close>, and
  neither issues a request: the state behind the transport and the list of requests
  are as before.
\<close>

theorem unbound_fails_fast:
  "themeID c = '''' \<Longrightarrow>
   GetInfo J c s = (Inl ErrInfoWithoutThemeID, s) \<and>
   PublishTheme J c s = (Some ErrPublishWithoutThemeID, s)"
  by (simp add: GetInfo_def PublishTheme_def)

theorem unbound_fails_fast_witness:
  "themeID (test_client '''' no_ignore) = '''' \<and>
   GetInfo test_json (test_client '''' no_ignore) (start [reply 200 body_theme]) =
     (Inl ErrInfoWithoutThemeID, \<lparr>world = [reply 200 body_theme], calls = []\<rparr>) \<and>
   PublishTheme test_json (test_client '''' no_ignore) (start [reply 200 body_theme]) =
     (Some ErrPublishWithoutThemeID, \<lparr>world = [reply 200 body_theme], calls = []\<rparr>)"
  using unbound_fails_fast [of "test_client '''' no_ignore" test_json "start [reply 200 body_theme]"]
  by (simp add: test_client_def start_def)


section \<open>Creating a theme\<close>

lemma decimal_nonempty: "decimal n \<noteq> []"
  by (subst decimal.simps) simp

lemma Sprintf_d_nonempty: "Sprintf_d n \<noteq> ''''"
  by (simp add: Sprintf_d_def decimal_nonempty)

lemma CreateNewTheme_client:
  assumes "CreateNewTheme J c name s = (res, c', s')"
  shows "case res of Inl err \<Rightarrow> c' = c
         | Inr theme \<Rightarrow> c' = c\<lparr>themeID := Sprintf_d (Theme.ID theme)\<rparr>"
  using assms
  by (auto simp: CreateNewTheme_def split: if_splits prod.splits sum.splits option.splits)





section \<open>The session state\<close>

lemma run_step:
  assumes "run J op (c, s) = Some (c', s')"
  shows "((\<forall>name. op \<noteq> OpCreateNewTheme name) \<longrightarrow> c' = c) \<and>
         filter_f c' = filter_f c \<and> http c' = http c \<and>
         (themeID c \<noteq> '''' \<longrightarrow> themeID c' \<noteq> '''')"
proof (cases op)
  case (OpCreateNewTheme name)
  obtain res c1 s1 where r: "CreateNewTheme J c name s = (res, c1, s1)"
    by (cases "CreateNewTheme J c name s") auto
  with assms OpCreateNewTheme have "c' = c1" by simp
  with CreateNewTheme_client [OF r] OpCreateNewTheme show ?thesis
    by (cases res) (auto simp: Sprintf_d_nonempty)
qed (use assms in \<open>auto simp: CreateAsset_def\<close>)

text \<open>
  C9. Over any sequence of public operations that returns: if \<open>CreateNewTheme\<close> is
  not among them the client is as before, \<open>themeID\<close> included; the filter and the
  transport of the client are as before in any case; and a client whose \<open>themeID\<close> is
  non-empty before the sequence has a non-empty \<open>themeID\<close> after it.
\<close>

theorem themeID_set_only_by_CreateNewTheme:
  assumes "run_all J ops (c, s) = Some (c', s')"
  shows "((\<forall>name. OpCreateNewTheme name \<notin> set ops) \<longrightarrow> c' = c) \<and>
         filter_f c' = filter_f c \<and> http c' = http c \<and>
         (themeID c \<noteq> '''' \<longrightarrow> themeID c' \<noteq> '''')"
  using assms
proof (induction ops arbitrary: c s)
  case Nil
  then show ?case by simp
next
  case (Cons op ops)
  from Cons.prems obtain c1 s1 where
    step: "run J op (c, s) = Some (c1, s1)" and rest: "run_all J ops (c1, s1) = Some (c', s')"
    by (auto split: option.splits)
  from run_step [OF step] Cons.IH [OF rest] show ?case by auto
qed

lemma run_all_bound_example:
  "run_all test_json [OpGetInfo, OpUpdateAsset (key_asset ''a.js'')]
      (test_client ''5'' no_ignore, start [reply 200 body_theme, reply 200 body_empty]) =
     Some (test_client ''5'' no_ignore,
           \<lparr>world = [],
            calls = [GET ''/admin/themes/5.json'',
                     PUT ''/admin/themes/5/assets.json'' (asset_payload (key_asset ''a.js''))]\<rparr>)"
  apply (simp add: GetInfo_def http_defs test_defs zero_defs)
  apply (subst UpdateAsset.simps)
  apply (simp add: http_defs test_defs zero_defs)
  done

lemma run_all_create_example:
  "run_all test_json [OpCreateNewTheme ''Foo'', OpGetInfo]
      (test_client ''5'' no_ignore, start [reply 200 body_theme, reply 200 body_theme]) =
     Some (test_client ''7'' no_ignore,
           \<lparr>world = [],
            calls = [POST ''/admin/themes.json'' (theme_payload (zero_Theme\<lparr>Theme.Name := ''Foo''\<rparr>)),
                     GET ''/admin/themes/7.json'']\<rparr>)"
proof -
  have d: "Sprintf_d 7 = ''7''"
    by code_simp
  show ?thesis
    by (simp add: CreateNewTheme_def GetInfo_def http_defs test_defs zero_defs d)
qed

theorem themeID_set_only_by_CreateNewTheme_witness:
  "run_all test_json [OpGetInfo, OpUpdateAsset (key_asset ''a.js'')]
      (test_client ''5'' no_ignore, start [reply 200 body_theme, reply 200 body_empty]) =
     Some (test_client ''5'' no_ignore,
           \<lparr>world = [],
            calls = [GET ''/admin/themes/5.json'',
                     PUT ''/admin/themes/5/assets.json'' (asset_payload (key_asset ''a.js''))]\<rparr>) \<and>
   (\<forall>name. OpCreateNewTheme name \<notin> set [OpGetInfo, OpUpdateAsset (key_asset ''a.js'')]) \<and>
   themeID (test_client ''5'' no_ignore) \<noteq> '''' \<and>
   run_all test_json [OpCreateNewTheme ''Foo'', OpGetInfo]
      (test_client ''5'' no_ignore, start [reply 200 body_theme, reply 200 body_theme]) =
     Some (test_client ''7'' no_ignore,
           \<lparr>world = [],
            calls = [POST ''/admin/themes.json'' (theme_payload (zero_Theme\<lparr>Theme.Name := ''Foo''\<rparr>)),
                     GET ''/admin/themes/7.json'']\<rparr>) \<and>
   themeID (test_client ''7'' no_ignore) \<noteq> ''''"
  using themeID_set_only_by_CreateNewTheme [OF run_all_bound_example]
    themeID_set_only_by_CreateNewTheme [OF run_all_create_example]
    run_all_bound_example run_all_create_example
  by (simp add: test_client_def)

section \<open>Deleting an asset\<close>

lemma DeleteAsset_calls:
  "calls (snd (DeleteAsset J c asset s)) =
     calls s @ [DELETE (assetPath c [(''asset[key]'', Key asset)])]"
  by (auto simp: DeleteAsset_def http_Delete_def split: prod.splits sum.splits option.splits)

lemma DeleteAsset_406:
  assumes "Delete (http c) (assetPath c [(''asset[key]'', Key asset)]) (world s) = (Inr resp, w)"
    and "StatusCode resp = 406"
  shows "fst (DeleteAsset J c asset s) = Some ErrMissingAssetName"
  using assms by (simp add: DeleteAsset_def http_Delete_def)

text \<open>
  C2, as stated, fails: \<open>DeleteAsset\<close> has no test of the key. With the empty key and a
  transport that answers 200 with an empty object it issues its \<open>Delete\<close> request and
  returns no error.
\<close>

theorem DeleteAsset_empty_key_requests:
  "DeleteAsset test_json (test_client '''' no_ignore) (key_asset '''')
      (start [reply 200 body_empty]) =
     (None, \<lparr>world = [], calls = [DELETE ''/admin/assets.json?asset%5Bkey%5D='']\<rparr>)"
  by (simp add: DeleteAsset_def http_defs test_defs zero_defs)

text \<open>
  C2, amended. For every asset whose \<open>Key\<close> is empty, \<open>DeleteAsset\<close> issues exactly
  one request, the \<open>Delete\<close> of the asset path with the empty key, and it fails with
  \<open>ErrMissingAssetName\<close> when the transport answers that request with status 406.
\<close>

theorem DeleteAsset_empty_key:
  assumes "Key asset = ''''"
  shows "calls (snd (DeleteAsset J c asset s)) =
           calls s @ [DELETE (assetPath c [(''asset[key]'', '''')])] \<and>
         (\<forall>resp w. Delete (http c) (assetPath c [(''asset[key]'', '''')]) (world s) = (Inr resp, w) \<and>
                   StatusCode resp = 406 \<longrightarrow>
                   fst (DeleteAsset J c asset s) = Some ErrMissingAssetName)"
  using assms DeleteAsset_calls [of J c asset s] DeleteAsset_406 [of c asset s _ _ J]
  by auto

theorem DeleteAsset_empty_key_witness:
  "Key (key_asset '''') = '''' \<and>
   Delete (http (test_client '''' no_ignore))
      (assetPath (test_client '''' no_ignore) [(''asset[key]'', '''')])
      (world (start [reply 406 body_empty])) = (reply 406 body_empty, []) \<and>
   calls (snd (DeleteAsset test_json (test_client '''' no_ignore) (key_asset '''')
                 (start [reply 406 body_empty]))) =
     [DELETE ''/admin/assets.json?asset%5Bkey%5D=''] \<and>
   fst (DeleteAsset test_json (test_client '''' no_ignore) (key_asset '''')
          (start [reply 406 body_empty])) = Some ErrMissingAssetName"
proof -
  have k: "Key (key_asset '''') = ''''"
    by (simp add: key_asset_def zero_Asset_def)
  have d: "Delete (http (test_client '''' no_ignore))
      (assetPath (test_client '''' no_ignore) [(''asset[key]'', '''')])
      (world (start [reply 406 body_empty])) = (reply 406 body_empty, [])"
    by (simp add: test_client_def scripted_def scripted_reply_def start_def)
  have p: "assetPath (test_client '''' no_ignore) [(''asset[key]'', '''')] =
      ''/admin/assets.json?asset%5Bkey%5D=''"
    by (simp add: http_defs test_defs)
  have c: "StatusCode \<lparr>StatusCode = 406, Body = \<lparr>ReadAll = Inr body_empty, Close = None\<rparr>\<rparr> = 406"
    by simp
  from DeleteAsset_empty_key [OF k, of test_json "test_client '''' no_ignore"
      "start [reply 406 body_empty]"] d p c
  show ?thesis
    using k by (simp add: start_def reply_def)
qed

section \<open>The response decoder\<close>




section \<open>Updating an asset\<close>








text \<open>
  C10 fails on the code: with status 422 and the field errors \<open>{"asset": []}\<close> the
  read of the first message is a read at index 0 of an empty slice, and the call ends
  in a panic.
\<close>

theorem UpdateAsset_panics_without_messages:
  "UpdateAsset test_json (test_client '''' no_ignore) (key_asset ''a.js'')
      (start [reply 422 body_no_messages]) =
     Some (Inl IndexOutOfRange,
           \<lparr>world = [], calls = [PUT ''/admin/assets.json'' (asset_payload (key_asset ''a.js''))]\<rparr>)"
  apply (subst UpdateAsset.simps)
  apply (simp add: http_defs test_defs zero_defs)
  done

section \<open>Listing the asset keys\<close>

lemma filterLoop_eq:
  "filterLoop match assets index acc =
     acc @ map (\<lambda>i. map Key assets ! i)
       (filter (\<lambda>i. \<not> match (map Key assets ! i) \<and>
                  (Suc i = length assets \<or> map Key assets ! Suc i \<noteq> map Key assets ! i @ ''.liquid''))
          [index..<length assets])"
proof (induction match assets index acc rule: filterLoop.induct)
  case (1 match assets index acc)
  show ?case
  proof (cases "index < length assets")
    case False
    then show ?thesis by (subst filterLoop.simps) simp
  next
    case True
    have last: "int index = int (length assets) - 1 \<longleftrightarrow> Suc index = length assets"
      by auto
    have nxt: "map Key assets ! Suc index = Key (assets ! Suc index)" if "Suc index \<noteq> length assets"
      using True that by (simp add: Suc_lessI)
    from True have upt: "[index..<length assets] = index # [Suc index..<length assets]"
      by (simp add: upt_conv_Cons)
    show ?thesis
      apply (subst filterLoop.simps)
      using True "1.IH" [OF True refl] last nxt
      apply (auto simp: upt Let_def)
      done
  qed
qed

lemma map_insort_key: "map f (insort_key f x xs) = insort (f x) (map f xs)"
  by (induction xs) simp_all

lemma map_sort_key: "map f (sort_key f xs) = sort (map f xs)"
  by (induction xs) (simp_all add: map_insort_key)

lemma filterLoop_keptKeys:
  "filterLoop match (sort_key Key assets) 0 [] = keptKeys match (sort (map Key assets))"
  by (simp add: filterLoop_eq keptKeys_def map_sort_key)

lemma sorted_keptKeys:
  assumes "sorted ks"
  shows "sorted (keptKeys match ks)"
proof -
  let ?P = "\<lambda>i. \<not> match (ks ! i) \<and> (Suc i = length ks \<or> ks ! Suc i \<noteq> ks ! i @ ''.liquid'')"
  have "sorted_wrt (<) (filter ?P [0..<length ks])"
    by (rule sorted_wrt_filter) (rule sorted_wrt_upt)
  then have "sorted_wrt (\<lambda>i j. ks ! i \<le> ks ! j) (filter ?P [0..<length ks])"
  proof (rule sorted_wrt_mono_rel [rotated])
    fix i j
    assume "i \<in> set (filter ?P [0..<length ks])" "j \<in> set (filter ?P [0..<length ks])" "i < j"
    then have "i \<le> j" "j < length ks" by auto
    with assms show "ks ! i \<le> ks ! j" by (rule sorted_nth_mono)
  qed
  then show ?thesis by (simp add: keptKeys_def sorted_map)
qed

text \<open>
  C3, as stated, fails: the successor that \<open>GetAllAssets\<close> compares with is the next
  key of the whole sorted response, not of what the ignore filter leaves. With the
  keys \<open>a.js\<close> and \<open>a.js.liquid\<close> and an ignore predicate that matches
  \<open>a.js.liquid\<close>, the two filters in sequence keep \<open>a.js\<close>; the code returns nothing.
\<close>

theorem GetAllAssets_ignored_shadow:
  "GetAllAssets test_json (test_client '''' (ignore_key ''a.js.liquid'')) (start [reply 200 body_shadow_only]) =
     (Inr [], \<lparr>world = [], calls = [GET ''/admin/assets.json?fields=key'']\<rparr>) \<and>
   spec_ListAssetKeys (ignore_key ''a.js.liquid'') [''a.js.liquid'', ''a.js''] = [''a.js'']"
  by code_simp

text \<open>
  C3, amended. On a response that is fetched and decoded, \<open>GetAllAssets\<close> sorts the
  keys ascending and returns, in that order, every key that the ignore predicate does
  not match and whose immediate successor in the whole sorted response (ignored keys
  included) is not the key with \<open>.liquid\<close> appended; the result is ascending. The
  input \<open>a.js\<close>, \<open>a.js.liquid\<close>, \<open>b.css\<close> with no ignore rule gives
  \<open>a.js.liquid\<close>, \<open>b.css\<close>.
\<close>

theorem GetAllAssets_listing:
  assumes "http_Get c (assetPath c [(''fields'', ''key'')]) s = (Inr resp, s')"
    and "StatusCode resp \<noteq> 404"
    and "unmarshalResponse (Unmarshal_assetsResponse J) (Unmarshal_reqErr J) (Body resp)
           zero_assetsResponse = (None, r)"
  shows "GetAllAssets J c s = (Inr (keptKeys (filter_f c) (sort (map Key (Assets r)))), s') \<and>
         sorted (keptKeys (filter_f c) (sort (map Key (Assets r))))"
  using assms by (simp add: GetAllAssets_def filterLoop_keptKeys sorted_keptKeys)

lemma pair_example:
  "http_Get (test_client '''' no_ignore)
      (assetPath (test_client '''' no_ignore) [(''fields'', ''key'')]) (start [reply 200 body_pair]) =
     (Inr \<lparr>StatusCode = 200, Body = \<lparr>ReadAll = Inr body_pair, Close = None\<rparr>\<rparr>,
      \<lparr>world = [], calls = [GET ''/admin/assets.json?fields=key'']\<rparr>)"
  "unmarshalResponse (Unmarshal_assetsResponse test_json) (Unmarshal_reqErr test_json)
      (Body \<lparr>StatusCode = 200, Body = \<lparr>ReadAll = Inr body_pair, Close = None\<rparr>\<rparr>) zero_assetsResponse =
     (None, \<lparr>Assets = [key_asset ''b.css'', key_asset ''a.js.liquid'', key_asset ''a.js'']\<rparr>)"
  "keptKeys (filter_f (test_client '''' no_ignore))
      (sort (map Key (Assets \<lparr>Assets = [key_asset ''b.css'', key_asset ''a.js.liquid'', key_asset ''a.js'']\<rparr>))) =
     [''a.js.liquid'', ''b.css'']"
  by code_simp+

theorem GetAllAssets_listing_witness:
  "GetAllAssets test_json (test_client '''' no_ignore) (start [reply 200 body_pair]) =
     (Inr [''a.js.liquid'', ''b.css''],
      \<lparr>world = [], calls = [GET ''/admin/assets.json?fields=key'']\<rparr>) \<and>
   sorted [''a.js.liquid'', ''b.css'']"
proof -
  have "StatusCode \<lparr>StatusCode = 200, Body = \<lparr>ReadAll = Inr body_pair, Close = None\<rparr>\<rparr> \<noteq> 404"
    by simp
  from GetAllAssets_listing [OF pair_example(1) this pair_example(2)]
  show ?thesis
    unfolding pair_example(3) .
qed

text \<open>
  C4 fails on the code: a key that sorts between \<open>K\<close> and \<open>K\<close> with \<open>.liquid\<close>
  appended separates the two, the test of the immediate successor does not see the
  pair, and the listing holds both \<open>a.js\<close> and \<open>a.js.liquid\<close>.
\<close>

theorem GetAllAssets_keeps_separated_pair:
  "GetAllAssets test_json (test_client '''' no_ignore) (start [reply 200 body_between]) =
     (Inr [''a.js'', ''a.js.bak'', ''a.js.liquid''],
      \<lparr>world = [], calls = [GET ''/admin/assets.json?fields=key'']\<rparr>)"
  by code_simp

end
